theory Spec2Isabelle
  imports Complex_Main "HOL-Library.Sublist" "HOL-Library.Multiset" "HOL-Library.Log_Nat"
begin

section \<open>Python values used by statsman's chart renderer\<close>

text \<open>
  The theory embeds \<^verbatim>\<open>src/statsman/ui/charts.py\<close> (class ChartRenderer) and
  \<^verbatim>\<open>src/statsman/ui/dashboard.py\<close> (class Dashboard).

  Conventions of the embedding:
  \<^item> a Python \<^verbatim>\<open>float\<close> is a \<open>real\<close>: a finite value (no NaN, no infinities). The
    quotient and the product that give a bar its filled length are rounded to double
    precision as the interpreter rounds them (\<open>round_double\<close> below), since the number
    of blocks drawn depends on that rounding; the other float operations are taken
    exact;
  \<^item> a Python \<^verbatim>\<open>int\<close> is an \<open>int\<close>; \<^verbatim>\<open>//\<close> is \<open>div\<close> (both round towards minus infinity);
  \<^item> a Python \<^verbatim>\<open>str\<close> is a list of Unicode code points, so that \<open>length\<close> is Python's
    \<^verbatim>\<open>len\<close> also for the block glyphs outside ASCII;
  \<^item> a \<^verbatim>\<open>Dict[str, float]\<close> is the list of its items in insertion order;
  \<^item> a raised exception is the \<open>Inl\<close> branch of a sum.
\<close>

datatype error = ZeroDivisionError | IndexError

type_synonym pystr = "nat list"

definition ascii :: "string \<Rightarrow> pystr" where
  "ascii s = map of_char s"

definition SPACE :: nat where "SPACE = 32"
definition NEWLINE :: nat where "NEWLINE = 10"
definition FULL_BLOCK :: nat where "FULL_BLOCK = 9608"
definition LIGHT_SHADE :: nat where "LIGHT_SHADE = 9617"

text \<open>\<^verbatim>\<open>a / b\<close> on floats raises ZeroDivisionError when \<^verbatim>\<open>b\<close> is zero.\<close>

definition py_div :: "real \<Rightarrow> real \<Rightarrow> error + real" where
  "py_div a b = (if b = 0 then Inl ZeroDivisionError else Inr (a / b))"

text \<open>\<^verbatim>\<open>int(x)\<close> on a float truncates towards zero.\<close>

definition py_int :: "real \<Rightarrow> int" where
  "py_int x = (if 0 \<le> x then \<lfloor>x\<rfloor> else \<lceil>x\<rceil>)"

text \<open>\<^verbatim>\<open>s * n\<close> on a string: the empty string when \<^verbatim>\<open>n\<close> is not positive.\<close>

definition py_repeat :: "pystr \<Rightarrow> int \<Rightarrow> pystr" where
  "py_repeat s n = concat (replicate (nat n) s)"

text \<open>
  Subscription \<^verbatim>\<open>xs[i]\<close>: indices \<open>0 .. len - 1\<close> read from the front, indices
  \<open>-len .. -1\<close> read from the back, every other index raises IndexError.
\<close>

definition py_getitem :: "'a list \<Rightarrow> int \<Rightarrow> error + 'a" where
  "py_getitem xs i =
     (if 0 \<le> i \<and> i < int (length xs) then Inr (xs ! nat i)
      else if i < 0 \<and> - int (length xs) \<le> i then Inr (xs ! nat (int (length xs) + i))
      else Inl IndexError)"

text \<open>\<^verbatim>\<open>xs[i:]\<close> and \<^verbatim>\<open>xs[:i]\<close>: a negative bound counts from the end and is clamped at 0.\<close>

definition py_slice_from :: "'a list \<Rightarrow> int \<Rightarrow> 'a list" where
  "py_slice_from xs i =
     (if i < 0 then drop (nat (max 0 (int (length xs) + i))) xs else drop (nat i) xs)"

definition py_slice_to :: "'a list \<Rightarrow> int \<Rightarrow> 'a list" where
  "py_slice_to xs i =
     (if i < 0 then take (nat (max 0 (int (length xs) + i))) xs else take (nat i) xs)"

text \<open>\<^verbatim>\<open>sep.join(lines)\<close>.\<close>

fun py_join :: "pystr \<Rightarrow> pystr list \<Rightarrow> pystr" where
  "py_join sep [] = []"
| "py_join sep [l] = l"
| "py_join sep (l # ls) = l @ sep @ py_join sep ls"

text \<open>Rounding to the nearest integer, to the even one on a tie.\<close>

definition round_half_even :: "real \<Rightarrow> int" where
  "round_half_even y =
     (let f = \<lfloor>y\<rfloor>; r = y - of_int f
      in if r < 1 / 2 then f else if 1 / 2 < r then f + 1
         else if even f then f else f + 1)"

section \<open>ChartRenderer.create_sparkline\<close>

definition spark_chars :: "pystr" where
  "spark_chars = [SPACE, 9601, 9602, 9603, 9604, 9605, 9606, 9607, FULL_BLOCK]"

text \<open>The body of \<^verbatim>\<open>for value in recent_data\<close>, with the string built so far.\<close>

fun sparkline_loop :: "real \<Rightarrow> real \<Rightarrow> real list \<Rightarrow> pystr \<Rightarrow> error + pystr" where
  "sparkline_loop min_val range_val [] sparkline = Inr sparkline"
| "sparkline_loop min_val range_val (v # rest) sparkline =
     (case py_div (v - min_val) range_val of
        Inl e \<Rightarrow> Inl e
      | Inr normalized \<Rightarrow>
          (let char_index = min (py_int (normalized * real (length spark_chars)))
                                (int (length spark_chars) - 1)
           in case py_getitem spark_chars (max 0 char_index) of
                Inl e \<Rightarrow> Inl e
              | Inr c \<Rightarrow> sparkline_loop min_val range_val rest (sparkline @ [c])))"

definition sparkline_range :: "real \<Rightarrow> real \<Rightarrow> real" where
  "sparkline_range min_val max_val = (if max_val \<noteq> min_val then max_val - min_val else 1)"

definition recent_data :: "real list \<Rightarrow> int \<Rightarrow> real list" where
  "recent_data data width =
     (if int (length data) > width then py_slice_from data (- width) else data)"

definition create_sparkline :: "real list \<Rightarrow> int \<Rightarrow> int \<Rightarrow> error + pystr" where
  "create_sparkline data width height =
     (case data of
        [] \<Rightarrow> Inr (py_repeat [SPACE] width)
      | d # ds \<Rightarrow>
          (let min_val = fold min ds d;
               max_val = fold max ds d;
               range_val = sparkline_range min_val max_val
           in sparkline_loop min_val range_val (recent_data data width) []))"

section \<open>String formatting\<close>

text \<open>\<^verbatim>\<open>s.ljust(n)\<close>, also the format specs \<^verbatim>\<open>{s:n}\<close> and \<^verbatim>\<open>{s:<n}\<close>; \<^verbatim>\<open>s.rjust(n)\<close>.\<close>

definition ljust :: "pystr \<Rightarrow> nat \<Rightarrow> pystr" where
  "ljust s n = s @ replicate (n - length s) SPACE"

definition rjust :: "pystr \<Rightarrow> nat \<Rightarrow> pystr" where
  "rjust s n = replicate (n - length s) SPACE @ s"

text \<open>\<^verbatim>\<open>str(n)\<close> for a non-negative integer and for any integer.\<close>

fun str_nat :: "nat \<Rightarrow> pystr" where
  "str_nat n = (if n < 10 then [48 + n] else str_nat (n div 10) @ [48 + n mod 10])"

declare str_nat.simps [simp del]

definition str_int :: "int \<Rightarrow> pystr" where
  "str_int i = (if i < 0 then ascii ''-'' @ str_nat (nat (- i)) else str_nat (nat i))"

text \<open>\<^verbatim>\<open>{i:02d}\<close> for the index of an \<^verbatim>\<open>enumerate\<close>, which is never negative.\<close>

definition fmt_02d :: "nat \<Rightarrow> pystr" where
  "fmt_02d i = replicate (2 - length (str_nat i)) 48 @ str_nat i"

text \<open>
  \<^verbatim>\<open>{x:.1f}\<close>: one decimal, the tenths rounded to nearest with ties to even
  (\<open>round_half_even\<close>), the sign kept; \<^verbatim>\<open>{x:5.1f}\<close> right-aligns it in 5 columns.
\<close>

definition fmt_1f :: "real \<Rightarrow> pystr" where
  "fmt_1f x =
     (let n = nat (round_half_even (\<bar>x\<bar> * 10))
      in (if x < 0 then ascii ''-'' else []) @ str_nat (n div 10) @ ascii ''.'' @ str_nat (n mod 10))"

definition fmt_5_1f :: "real \<Rightarrow> pystr" where
  "fmt_5_1f x = rjust (fmt_1f x) 5"

section \<open>Double-precision rounding\<close>

text \<open>
  A double has a significand of 53 bits. For a real \<open>x\<close> with
  \<open>2 ^ e \<le> \<bar>x\<bar> < 2 ^ (e + 1)\<close> the doubles around \<open>x\<close> are the multiples of
  \<open>2 ^ (e - 52)\<close>, and an operation returns the multiple nearest to its exact result,
  the one with the even multiplier on a tie. Below \<open>2 ^ (- 1022)\<close> the spacing stays
  \<open>2 ^ (- 1074)\<close>. Results of magnitude \<open>2 ^ 1024\<close> and more (infinities) are not
  modelled.
\<close>

definition float_exponent :: "real \<Rightarrow> int" where
  "float_exponent x =
     max (- 1022) (if 1 \<le> \<bar>x\<bar> then bitlen \<lfloor>\<bar>x\<bar>\<rfloor> - 1 else - bitlen (\<lceil>1 / \<bar>x\<bar>\<rceil> - 1))"

definition ulp :: "int \<Rightarrow> real" where
  "ulp e = (if 52 \<le> e then 2 ^ nat (e - 52) else 1 / 2 ^ nat (52 - e))"

definition round_double :: "real \<Rightarrow> real" where
  "round_double x =
     real_of_int (round_half_even (x / ulp (float_exponent x))) * ulp (float_exponent x)"

text \<open>\<^verbatim>\<open>a / b\<close> and \<^verbatim>\<open>a * b\<close> on floats, and an \<^verbatim>\<open>int\<close> operand converted to a float.\<close>

definition float_div :: "real \<Rightarrow> real \<Rightarrow> error + real" where
  "float_div a b = (if b = 0 then Inl ZeroDivisionError else Inr (round_double (a / b)))"

definition float_mul :: "real \<Rightarrow> real \<Rightarrow> real" where
  "float_mul a b = round_double (a * b)"

definition float_of_int :: "int \<Rightarrow> real" where
  "float_of_int i = round_double (real_of_int i)"

section \<open>Renderables of the rich library\<close>

text \<open>
  \<^verbatim>\<open>Panel(renderable, title=, border_style=, height=)\<close>, \<^verbatim>\<open>Group(*renderables)\<close>,
  \<^verbatim>\<open>Text(str, style=)\<close>, \<^verbatim>\<open>Text.from_markup(str)\<close>, \<^verbatim>\<open>Align.center(renderable)\<close> and a
  bare string. The library is a rendering backend outside the repository; only the
  values handed to it are modelled. \<open>Placeholder\<close> is the content of a layout region
  that no \<^verbatim>\<open>update\<close> has filled yet.
\<close>

datatype renderable =
    Placeholder
  | Str pystr
  | Text pystr "string option"
  | Markup pystr
  | Group "renderable list"
  | Align_center renderable
  | Panel renderable "pystr option" string "int option"

text \<open>A list comprehension or loop whose body may raise: the first exception wins.\<close>

fun map_err :: "('a \<Rightarrow> error + 'b) \<Rightarrow> 'a list \<Rightarrow> error + 'b list" where
  "map_err f [] = Inr []"
| "map_err f (x # xs) =
     (case f x of
        Inl e \<Rightarrow> Inl e
      | Inr y \<Rightarrow> (case map_err f xs of Inl e \<Rightarrow> Inl e | Inr ys \<Rightarrow> Inr (y # ys)))"

section \<open>ChartRenderer.create_vertical_bars\<close>

text \<open>\<^verbatim>\<open>max(data.values()) if data.values() else 1\<close>.\<close>

definition max_values :: "real list \<Rightarrow> real" where
  "max_values vals = (case vals of [] \<Rightarrow> 1 | v # vs \<Rightarrow> fold max vs v)"

text \<open>\<^verbatim>\<open>int((v / max_val) * width) if max_val > 0 else 0\<close>.\<close>

definition bar_width_of :: "real \<Rightarrow> int \<Rightarrow> real \<Rightarrow> error + int" where
  "bar_width_of max_val width v =
     (if max_val > 0
      then (case float_div v max_val of
              Inl e \<Rightarrow> Inl e
            | Inr q \<Rightarrow> Inr (py_int (float_mul q (float_of_int width))))
      else Inr 0)"

text \<open>The inner loop \<^verbatim>\<open>for bar_width in bar_widths\<close> of one text row.\<close>

fun vbar_line_loop :: "int \<Rightarrow> int \<Rightarrow> int \<Rightarrow> int list \<Rightarrow> pystr \<Rightarrow> error + pystr" where
  "vbar_line_loop level height width [] line = Inr line"
| "vbar_line_loop level height width (bar_width # rest) line =
     (case py_div (real_of_int level) (real_of_int height) of
        Inl e \<Rightarrow> Inl e
      | Inr q \<Rightarrow>
          (let threshold = q * real_of_int width;
               line1 = line @ (if real_of_int bar_width \<ge> threshold then [FULL_BLOCK] else [SPACE])
           in vbar_line_loop level height width rest (line1 @ [SPACE, SPACE])))"

text \<open>The outer loop \<^verbatim>\<open>for level in range(height, 0, -1)\<close>.\<close>

fun vbar_lines_loop :: "int list \<Rightarrow> int \<Rightarrow> int \<Rightarrow> int list \<Rightarrow> pystr list \<Rightarrow> error + pystr list" where
  "vbar_lines_loop [] height width bar_widths lines = Inr lines"
| "vbar_lines_loop (level # levels) height width bar_widths lines =
     (case vbar_line_loop level height width bar_widths [] of
        Inl e \<Rightarrow> Inl e
      | Inr line \<Rightarrow> vbar_lines_loop levels height width bar_widths (lines @ [line]))"

definition label_line_of :: "pystr list \<Rightarrow> pystr" where
  "label_line_of labels = concat (map (\<lambda>label. ljust (take 8 label) 8 @ [SPACE, SPACE]) labels)"

definition create_vertical_bars :: "(pystr \<times> real) list \<Rightarrow> int \<Rightarrow> int \<Rightarrow> error + renderable" where
  "create_vertical_bars data height width =
     (if data = [] then Inr (Panel (Str (ascii ''No data'')) None ''red'' None)
      else
        (let max_val = max_values (map snd data);
             labels = map fst data;
             vals = map snd data
         in case map_err (bar_width_of max_val width) vals of
              Inl e \<Rightarrow> Inl e
            | Inr bar_widths \<Rightarrow>
                (case vbar_lines_loop (rev [1..height]) height width bar_widths [] of
                   Inl e \<Rightarrow> Inl e
                 | Inr lines \<Rightarrow>
                     Inr (Panel (Str (py_join [NEWLINE] (lines @ [label_line_of labels])))
                            None ''blue'' None))))"

section \<open>ChartRenderer.create_horizontal_bars\<close>

text \<open>A bar of \<^verbatim>\<open>bar_width\<close> solid blocks and \<^verbatim>\<open>max_width - bar_width\<close> light ones.\<close>

definition hbar :: "int \<Rightarrow> int \<Rightarrow> pystr" where
  "hbar bar_width max_width =
     py_repeat [FULL_BLOCK] bar_width @ py_repeat [LIGHT_SHADE] (max_width - bar_width)"

text \<open>One round of \<^verbatim>\<open>for label, value in data.items()\<close>.\<close>

definition hbar_row :: "real \<Rightarrow> int \<Rightarrow> pystr \<times> real \<Rightarrow> error + pystr" where
  "hbar_row max_val max_width item =
     (case item of (label, v) \<Rightarrow>
        (case bar_width_of max_val max_width v of
           Inl e \<Rightarrow> Inl e
         | Inr bar_width \<Rightarrow>
             Inr (ljust label 6 @ [SPACE] @ hbar bar_width max_width @ [SPACE]
                  @ fmt_5_1f v @ ascii ''%'')))"

definition create_horizontal_bars :: "(pystr \<times> real) list \<Rightarrow> int \<Rightarrow> error + renderable" where
  "create_horizontal_bars data max_width =
     (if data = [] then Inr (Panel (Str (ascii ''No data'')) None ''red'' None)
      else
        (let max_val = max_values (map snd data)
         in case map_err (hbar_row max_val max_width) data of
              Inl e \<Rightarrow> Inl e
            | Inr lines \<Rightarrow> Inr (Panel (Str (py_join [NEWLINE] lines)) None ''green'' None)))"

section \<open>ChartRenderer.create_mini_process_table\<close>

record process =
  pid :: int
  name :: pystr
  cpu_percent :: real
  memory_percent :: real

text \<open>
  \<^verbatim>\<open>sorted(xs, key=k, reverse=True)\<close> and \<^verbatim>\<open>xs.sort(key=k, reverse=True)\<close>: the list is
  reversed, sorted stably in ascending order of the key, and reversed again, so that
  elements with equal keys keep their input order.
\<close>

definition py_sorted_reverse :: "('a \<Rightarrow> real) \<Rightarrow> 'a list \<Rightarrow> 'a list" where
  "py_sorted_reverse k xs = rev (sort_key k (rev xs))"

definition create_mini_bar :: "real \<Rightarrow> int \<Rightarrow> pystr" where
  "create_mini_bar percentage width =
     (let filled = py_int ((percentage / 100) * real_of_int width)
      in py_repeat [FULL_BLOCK] filled @ py_repeat [LIGHT_SHADE] (width - filled))"

definition table_header :: pystr where
  "table_header = ljust (ascii ''PID'') 7 @ [SPACE] @ ljust (ascii ''PROCESS'') 20 @ [SPACE]
                  @ ljust (ascii ''CPU'') 12 @ [SPACE] @ ljust (ascii ''MEM'') 12"

text \<open>The processes that get a row: \<^verbatim>\<open>sorted_processes[:limit]\<close>.\<close>

definition table_processes :: "process list \<Rightarrow> int \<Rightarrow> process list" where
  "table_processes processes limit = py_slice_to (py_sorted_reverse cpu_percent processes) limit"

text \<open>One round of \<^verbatim>\<open>for proc in sorted_processes[:limit]\<close>.\<close>

definition process_row :: "int \<Rightarrow> process \<Rightarrow> pystr" where
  "process_row bar_width proc =
     (let cpu_bar = create_mini_bar (cpu_percent proc) bar_width;
          mem_bar = create_mini_bar (memory_percent proc) bar_width;
          name1 = (if length (name proc) > 20 then take 18 (name proc) @ ascii ''..''
                   else ljust (name proc) 20)
      in ljust (str_int (pid proc)) 7 @ [SPACE] @ name1 @ [SPACE] @ cpu_bar @ [SPACE] @ mem_bar)"

definition create_mini_process_table :: "process list \<Rightarrow> int \<Rightarrow> int \<Rightarrow> renderable" where
  "create_mini_process_table processes limit console_width =
     (if processes = [] then Panel (Str (ascii ''No processes'')) None ''red'' None
      else
        (let max_name_width = max 10 (min 20 ((console_width - 35) div 2));
             bar_width = max 5 (min 10 ((console_width - 25) div 4));
             separator = py_repeat (ascii ''='') (min (console_width - 4) 75);
             lines = [table_header, separator]
                     @ map (process_row bar_width) (table_processes processes limit)
         in Panel (Str (py_join [NEWLINE] lines)) (Some (ascii ''Top Processes'')) ''magenta'' None))"

section \<open>Gauges, network, CPU cores, memory\<close>

record cpu_info =
  percent :: real
  percent_per_core :: "real list"

record memory_info =
  mem_percent :: real
  used :: int
  total :: int

record disk_info =
  disk_percent :: real

record network_info =
  bytes_sent :: int
  bytes_recv :: int

definition create_gauge :: "real \<Rightarrow> pystr \<Rightarrow> int \<Rightarrow> renderable" where
  "create_gauge percentage label width =
     (let filled = py_int ((percentage / 100) * real_of_int width);
          bar = py_repeat [FULL_BLOCK] filled @ py_repeat [LIGHT_SHADE] (width - filled)
      in Markup (ascii ''[bold]'' @ label @ ascii '':[/bold] '' @ bar @ [SPACE]
                 @ fmt_5_1f percentage @ ascii ''%''))"

definition create_system_gauges :: "cpu_info \<Rightarrow> memory_info \<Rightarrow> disk_info \<Rightarrow> int \<Rightarrow> renderable" where
  "create_system_gauges cpu mem disk console_width =
     (let gauge_width = max 15 (min 30 (console_width div 4));
          cpu_gauge = create_gauge (percent cpu) (ascii ''CPU'') gauge_width;
          mem_gauge = create_gauge (mem_percent mem) (ascii ''MEM'') gauge_width;
          disk_gauge = create_gauge (disk_percent disk) (ascii ''DSK'') gauge_width
      in Panel (Group [cpu_gauge, mem_gauge, disk_gauge]) None ''cyan'' None)"

definition create_network_visualization :: "network_info \<Rightarrow> int \<Rightarrow> error + renderable" where
  "create_network_visualization net console_width =
     (let sent_mb = real_of_int (bytes_sent net) / (1024 * 1024);
          recv_mb = real_of_int (bytes_recv net) / (1024 * 1024);
          network_data = [(ascii ''UPLOAD'', min (sent_mb * 10) 100),
                          (ascii ''DOWNLOAD'', min (recv_mb * 10) 100)];
          bar_width = max 15 (min 70 (console_width div 2))
      in create_horizontal_bars network_data bar_width)"

text \<open>
  \<^verbatim>\<open>core_data[f"C{i:02d}"] = core_percent\<close>: assignment to a dict key replaces the value
  of a key already present, in place, and appends a new key.
\<close>

fun dict_set :: "(pystr \<times> real) list \<Rightarrow> pystr \<Rightarrow> real \<Rightarrow> (pystr \<times> real) list" where
  "dict_set [] k v = [(k, v)]"
| "dict_set ((k1, v1) # d) k v = (if k1 = k then (k, v) # d else (k1, v1) # dict_set d k v)"

text \<open>\<^verbatim>\<open>for i, core_percent in enumerate(cpu_info.percent_per_core)\<close>, from index \<open>i\<close> on.\<close>

fun core_data_loop :: "nat \<Rightarrow> real list \<Rightarrow> (pystr \<times> real) list \<Rightarrow> (pystr \<times> real) list" where
  "core_data_loop i [] core_data = core_data"
| "core_data_loop i (core_percent # rest) core_data =
     core_data_loop (Suc i) rest (dict_set core_data (ascii ''C'' @ fmt_02d i) core_percent)"

definition core_bar_width :: "int \<Rightarrow> int" where
  "core_bar_width console_width = max 20 (min 40 (console_width div 8))"

definition create_cpu_core_visualization :: "cpu_info \<Rightarrow> int \<Rightarrow> error + renderable" where
  "create_cpu_core_visualization cpu console_width =
     (if percent_per_core cpu = [] then Inr (Panel (Str (ascii ''No core data'')) None ''red'' None)
      else
        (let core_data = core_data_loop 0 (percent_per_core cpu) [];
             bar_width = core_bar_width console_width
         in create_vertical_bars core_data 8 bar_width))"

definition create_memory_breakdown :: "memory_info \<Rightarrow> int \<Rightarrow> error + renderable" where
  "create_memory_breakdown mem console_width =
     (let used_gb = real_of_int (used mem) / (1024 ^ 3);
          total_gb = real_of_int (total mem) / (1024 ^ 3)
      in case py_div used_gb total_gb of
           Inl e \<Rightarrow> Inl e
         | Inr used_ratio \<Rightarrow>
             (case py_div (total_gb - used_gb) total_gb of
                Inl e \<Rightarrow> Inl e
              | Inr free_ratio \<Rightarrow>
                  (let memory_data = [(ascii ''USED'', used_ratio * 100),
                                      (ascii ''FREE'', free_ratio * 100)];
                       bar_width = max 15 (min 70 (console_width div 2))
                   in create_horizontal_bars memory_data bar_width)))"

section \<open>The data provider\<close>

text \<open>
  Modelled from the spec: the DataProvider capability of section 6
  (\<^verbatim>\<open>src/statsman/system_monitor.py\<close>, class SystemMonitor, is not among the sources).
  The dashboard is given the provider's operations as parameters over an arbitrary
  monitor state \<open>'m\<close>; the readers do not change the monitor, \<open>update_history\<close> does.
\<close>

record 'm data_provider =
  update_history :: "'m \<Rightarrow> 'm"
  get_cpu_info :: "'m \<Rightarrow> cpu_info"
  get_memory_info :: "'m \<Rightarrow> memory_info"
  get_disk_info :: "'m \<Rightarrow> disk_info"
  get_network_info :: "'m \<Rightarrow> network_info"
  get_process_info :: "'m \<Rightarrow> int \<Rightarrow> process list"
  get_cpu_history :: "'m \<Rightarrow> real list"
  get_memory_history :: "'m \<Rightarrow> real list"

text \<open>
  Modelled from the spec: one provider that follows sections 3 and 6, used where a
  concrete run is evaluated. A history is a bounded buffer that drops its oldest
  sample on overflow; \<open>updateHistory\<close> appends the current readings; a process
  snapshot of size \<open>n\<close> is the first \<open>n\<close> records of the current snapshot.
\<close>

record system_monitor =
  history_size :: nat
  cpu :: cpu_info
  mem :: memory_info
  disk :: disk_info
  net :: network_info
  procs :: "process list"
  cpu_history :: "real list"
  memory_history :: "real list"

definition push_sample :: "nat \<Rightarrow> real list \<Rightarrow> real \<Rightarrow> real list" where
  "push_sample capacity history x = drop (Suc (length history) - capacity) (history @ [x])"

definition monitor_update_history :: "system_monitor \<Rightarrow> system_monitor" where
  "monitor_update_history m =
     m\<lparr>cpu_history := push_sample (history_size m) (cpu_history m) (percent (cpu m)),
       memory_history := push_sample (history_size m) (memory_history m) (mem_percent (mem m))\<rparr>"

definition system_monitor_provider :: "system_monitor data_provider" where
  "system_monitor_provider =
     \<lparr>update_history = monitor_update_history,
      get_cpu_info = cpu,
      get_memory_info = mem,
      get_disk_info = disk,
      get_network_info = net,
      get_process_info = (\<lambda>m limit. py_slice_to (procs m) limit),
      get_cpu_history = cpu_history,
      get_memory_history = memory_history\<rparr>"

section \<open>Dashboard\<close>

text \<open>
  The regions \<^verbatim>\<open>_make_layout\<close> names that take a renderable, each with the renderable
  it holds. The sizes and ratios of the split are the same on every call and are not
  modelled. A region fresh from \<^verbatim>\<open>_make_layout\<close> holds the placeholder.
\<close>

record layout =
  header :: renderable
  footer :: renderable
  gauges :: renderable
  cores :: renderable
  memory :: renderable
  network :: renderable
  processes :: renderable

definition make_layout :: layout where
  "make_layout =
     \<lparr>header = Placeholder, footer = Placeholder, gauges = Placeholder, cores = Placeholder,
      memory = Placeholder, network = Placeholder, processes = Placeholder\<rparr>"

text \<open>
  The attributes \<^verbatim>\<open>__init__\<close> gives a Dashboard: the console (of which only
  \<^verbatim>\<open>console.size.height\<close> is read), the monitor, the layout and \<^verbatim>\<open>sort_processes_by\<close>;
  the chart renderer is stateless. The \<^verbatim>\<open>Layout()\<close> of \<^verbatim>\<open>__init__\<close> holds no renderable
  and is replaced by \<^verbatim>\<open>render\<close> before it is read; it is the layout of placeholders
  here. The functions are defined on the record scheme: whatever further attributes an
  outer layer attaches to the object are carried along unread.
\<close>

record 'm dashboard =
  console_height :: int
  monitor :: 'm
  layout :: layout
  sort_processes_by :: pystr

definition init_dashboard :: "int \<Rightarrow> 'm \<Rightarrow> 'm dashboard" where
  "init_dashboard h m =
     \<lparr>console_height = h, monitor = m, layout = make_layout, sort_processes_by = ascii ''cpu''\<rparr>"

definition create_header :: renderable where
  "create_header =
     Panel (Align_center (Text (ascii ''StatsMan - System Monitor'') (Some ''bold blue'')))
           None ''bright_blue'' (Some 3)"

definition footer_text :: pystr where
  "footer_text = ascii ''[bold cyan]q[/] quit '' @ [9474] @ ascii '' ''
               @ ascii ''[bold cyan]p[/] pause '' @ [9474] @ ascii '' ''
               @ ascii ''[bold cyan]c[/] sort CPU '' @ [9474] @ ascii '' ''
               @ ascii ''[bold cyan]m[/] sort MEM''"

definition create_footer :: renderable where
  "create_footer = Panel (Align_center (Markup footer_text)) None ''bright_black'' (Some 3)"

definition dash_system_gauges :: "'m data_provider \<Rightarrow> 'm \<Rightarrow> renderable" where
  "dash_system_gauges P m =
     create_system_gauges (get_cpu_info P m) (get_memory_info P m) (get_disk_info P m) 80"

definition dash_cpu_cores :: "'m data_provider \<Rightarrow> 'm \<Rightarrow> error + renderable" where
  "dash_cpu_cores P m =
     (let c = get_cpu_info P m; history = get_cpu_history P m
      in case create_sparkline history 80 6 of
           Inl e \<Rightarrow> Inl e
         | Inr spark \<Rightarrow>
             (case create_cpu_core_visualization c 80 of
                Inl e \<Rightarrow> Inl e
              | Inr cores_panel \<Rightarrow>
                  Inr (Panel (Group [Text (ascii ''CPU Usage: '' @ fmt_1f (percent c) @ ascii ''%'') None,
                                     Str spark, cores_panel])
                         (Some (ascii ''CPU Cores'')) ''red'' None)))"

definition dash_memory_visual :: "'m data_provider \<Rightarrow> 'm \<Rightarrow> error + renderable" where
  "dash_memory_visual P m =
     (let mi = get_memory_info P m; history = get_memory_history P m
      in case create_sparkline history 80 5 of
           Inl e \<Rightarrow> Inl e
         | Inr spark \<Rightarrow>
             (case create_memory_breakdown mi 80 of
                Inl e \<Rightarrow> Inl e
              | Inr breakdown \<Rightarrow>
                  Inr (Panel (Group [Text (ascii ''Memory: '' @ fmt_1f (mem_percent mi) @ ascii ''%'') None,
                                     Str spark, breakdown])
                         (Some (ascii ''Memory & Swap'')) ''green'' None)))"

definition dash_network_visual :: "'m data_provider \<Rightarrow> 'm \<Rightarrow> error + renderable" where
  "dash_network_visual P m = create_network_visualization (get_network_info P m) 80"

text \<open>\<^verbatim>\<open>limit = max(8, height // 3, 20)\<close>.\<close>

definition process_limit :: "int \<Rightarrow> int" where
  "process_limit height = max 8 (max (height div 3) 20)"

text \<open>The list \<^verbatim>\<open>procs[:limit]\<close> that \<^verbatim>\<open>_create_processes_visual\<close> hands to the table.\<close>

definition visual_processes :: "'m data_provider \<Rightarrow> ('m, 'z) dashboard_scheme \<Rightarrow> process list" where
  "visual_processes P d =
     (let limit = process_limit (console_height d);
          ps = get_process_info P (monitor d) (limit + 5);
          ps1 = (if sort_processes_by d = ascii ''memory''
                 then py_sorted_reverse memory_percent ps else ps)
      in py_slice_to ps1 limit)"

text \<open>The table is called with its defaults \<^verbatim>\<open>limit=12\<close>, \<^verbatim>\<open>console_width=80\<close>.\<close>

definition create_processes_visual :: "'m data_provider \<Rightarrow> ('m, 'z) dashboard_scheme \<Rightarrow> renderable" where
  "create_processes_visual P d = create_mini_process_table (visual_processes P d) 12 80"

text \<open>
  \<^verbatim>\<open>render\<close>: the dashboard after the call, and the layout returned or the exception
  that left the method. The layout attribute is replaced first and its regions are
  filled in the order of the source; an exception leaves the history updated and the
  layout filled as far as the method got.
\<close>

definition render :: "'m data_provider \<Rightarrow> ('m, 'z) dashboard_scheme
    \<Rightarrow> ('m, 'z) dashboard_scheme \<times> (error + layout)" where
  "render P d =
     (let d0 = d\<lparr>layout := make_layout\<rparr>;
          d1 = d0\<lparr>monitor := update_history P (monitor d0)\<rparr>;
          m = monitor d1;
          l1 = (layout d1)\<lparr>header := create_header, footer := create_footer,
                            gauges := dash_system_gauges P m\<rparr>
      in case dash_cpu_cores P m of
           Inl e \<Rightarrow> (d1\<lparr>layout := l1\<rparr>, Inl e)
         | Inr cores_panel \<Rightarrow>
             (let l2 = l1\<lparr>cores := cores_panel\<rparr>
              in case dash_memory_visual P m of
                   Inl e \<Rightarrow> (d1\<lparr>layout := l2\<rparr>, Inl e)
                 | Inr memory_panel \<Rightarrow>
                     (let l3 = l2\<lparr>memory := memory_panel\<rparr>
                      in case dash_network_visual P m of
                           Inl e \<Rightarrow> (d1\<lparr>layout := l3\<rparr>, Inl e)
                         | Inr network_panel \<Rightarrow>
                             (let l4 = l3\<lparr>network := network_panel,
                                           processes := create_processes_visual P d1\<rparr>
                              in (d1\<lparr>layout := l4\<rparr>, Inr l4)))))"

definition set_process_sort :: "('m, 'z) dashboard_scheme \<Rightarrow> pystr \<Rightarrow> ('m, 'z) dashboard_scheme" where
  "set_process_sort d sort_by =
     (if sort_by = ascii ''cpu'' \<or> sort_by = ascii ''memory''
      then d\<lparr>sort_processes_by := sort_by\<rparr> else d)"

section \<open>Auxiliary notions for the properties\<close>

text \<open>
  The glyph the sparkline loop emits for one sample: the body of the loop as a
  function of the sample, given a range that is not zero.
\<close>

definition spark_glyph :: "real \<Rightarrow> real \<Rightarrow> real \<Rightarrow> nat" where
  "spark_glyph min_val range_val v =
     spark_chars ! nat (max 0 (min (py_int ((v - min_val) / range_val * 9)) 8))"

text \<open>A monitor state for the concrete runs: three cores, two processes, empty histories.\<close>

definition sample_monitor :: system_monitor where
  "sample_monitor =
     \<lparr>history_size = 120,
      cpu = \<lparr>percent = 50, percent_per_core = [10, 50, 90]\<rparr>,
      mem = \<lparr>mem_percent = 25, used = 1024, total = 4096\<rparr>,
      disk = \<lparr>disk_percent = 12\<rparr>,
      net = \<lparr>bytes_sent = 0, bytes_recv = 0\<rparr>,
      procs = [\<lparr>pid = 1, name = ascii ''a'', cpu_percent = 10, memory_percent = 90\<rparr>,
               \<lparr>pid = 2, name = ascii ''b'', cpu_percent = 90, memory_percent = 10\<rparr>],
      cpu_history = [],
      memory_history = []\<rparr>"

text \<open>
  The spec's dashboard state carries a pause flag; \<^verbatim>\<open>Dashboard.__init__\<close> sets none. An
  outer layer can attach one to the Python object, and this extension of the record is
  that object: it is used to state what \<^verbatim>\<open>render\<close> does when such a flag is set.
\<close>

record 'm pausable_dashboard = "'m dashboard" +
  paused :: bool

text \<open>
  The filled length of a bar as the spec words it: \<open>round_down(value / maxVal * maxWidth)\<close>
  in exact arithmetic, and no filled block when the maximum is not positive. It is
  compared below with what \<open>bar_width_of\<close>, taken from the source, computes.
\<close>

definition filled_width :: "real \<Rightarrow> int \<Rightarrow> real \<Rightarrow> int" where
  "filled_width max_val max_width v =
     (if max_val > 0 then \<lfloor>v / max_val * real_of_int max_width\<rfloor> else 0)"

text \<open>
  The same length with the quotient and the product rounded to double precision: the
  value of \<^verbatim>\<open>int((value / max_val) * max_width)\<close> for a value that is not negative.
\<close>

definition float_filled_width :: "real \<Rightarrow> int \<Rightarrow> real \<Rightarrow> int" where
  "float_filled_width max_val max_width v =
     (if max_val > 0
      then \<lfloor>round_double (round_double (v / max_val) * round_double (real_of_int max_width))\<rfloor>
      else 0)"

section \<open>Empty inputs\<close>

text \<open>
  Claim C6. For the empty input collection, each of create_vertical_bars,
  create_horizontal_bars and create_mini_process_table returns its placeholder panel
  (a red panel reading "No data", respectively "No processes"), whatever the geometry
  arguments are, and raises no error.
\<close>

theorem empty_input_placeholder:
  "create_vertical_bars [] height width = Inr (Panel (Str (ascii ''No data'')) None ''red'' None)
   \<and> create_horizontal_bars [] max_width = Inr (Panel (Str (ascii ''No data'')) None ''red'' None)
   \<and> create_mini_process_table [] limit console_width
       = Panel (Str (ascii ''No processes'')) None ''red'' None"
  by (simp add: create_vertical_bars_def create_horizontal_bars_def create_mini_process_table_def)

section \<open>Division by zero\<close>

text \<open>
  Claim C2. The claim is that no chart function divides by zero, create_memory_breakdown
  on a snapshot with total = 0 included. The sparkline and both bar charts guard their
  denominators; create_memory_breakdown divides by \<^verbatim>\<open>total_gb\<close> unguarded, and on a
  snapshot whose total is 0 the call ends in ZeroDivisionError.
\<close>

theorem memory_breakdown_zero_total:
  "create_memory_breakdown \<lparr>mem_percent = 0, used = 0, total = 0\<rparr> 80 = Inl ZeroDivisionError"
  by (simp add: create_memory_breakdown_def py_div_def)

section \<open>Sparkline\<close>

lemma length_spark_chars: "length spark_chars = 9"
  by (simp add: spark_chars_def)

lemma getitem_spark_chars:
  "py_getitem spark_chars (max 0 (min k 8)) = Inr (spark_chars ! nat (max 0 (min k 8)))"
  by (simp add: py_getitem_def length_spark_chars Let_def)

lemma sparkline_loop_map:
  "range_val \<noteq> 0 \<Longrightarrow>
   sparkline_loop min_val range_val vs acc = Inr (acc @ map (spark_glyph min_val range_val) vs)"
proof (induction vs arbitrary: acc)
  case Nil
  show ?case by simp
next
  case (Cons v vs)
  have "sparkline_loop min_val range_val (v # vs) acc
        = sparkline_loop min_val range_val vs (acc @ [spark_glyph min_val range_val v])"
    using Cons.prems
    by (simp add: py_div_def length_spark_chars getitem_spark_chars spark_glyph_def Let_def)
  then show ?case using Cons by simp
qed

lemma sparkline_range_nonzero: "sparkline_range a b \<noteq> 0"
  by (simp add: sparkline_range_def)

lemma recent_data_window:
  "1 \<le> width \<Longrightarrow> recent_data data width = drop (length data - nat width) data"
  by (auto simp: recent_data_def py_slice_from_def max_def nat_diff_distrib'
           intro: arg_cong2[where f=drop])

lemma create_sparkline_nonempty:
  assumes "data \<noteq> []"
  shows "create_sparkline data width height
         = Inr (map (spark_glyph (Min (set data)) (sparkline_range (Min (set data)) (Max (set data))))
                    (recent_data data width))"
proof -
  obtain d ds where data: "data = d # ds" using assms by (cases data) auto
  have mn: "fold min ds d = Min (set data)" and mx: "fold max ds d = Max (set data)"
    by (simp_all only: data Min.set_eq_fold Max.set_eq_fold)
  show ?thesis
    unfolding create_sparkline_def data list.case Let_def
    unfolding mn mx data[symmetric]
    by (simp add: sparkline_loop_map sparkline_range_nonzero)
qed

lemma py_repeat_single: "py_repeat [c] n = replicate (nat n) c"
  by (simp add: py_repeat_def)

lemma map_const_replicate: "\<forall>x\<in>set xs. f x = k \<Longrightarrow> map f xs = replicate (length xs) k"
  by (induction xs) auto

lemma spark_glyph_min: "spark_glyph c 1 c = SPACE"
  by (simp add: spark_glyph_def py_int_def spark_chars_def)

text \<open>
  Claim C1. For a non-empty series and a width of at least 1, create_sparkline returns
  a string of min(len(series), width) glyphs: one glyph for each of the last
  \<open>width\<close> samples, oldest first, scaled by the minimum and the range of the whole
  series. For the empty series it returns \<open>width\<close> spaces.
\<close>

theorem sparkline_length:
  "(data \<noteq> [] \<and> 1 \<le> width \<longrightarrow>
      (\<exists>s. create_sparkline data width height = Inr s
          \<and> length s = min (length data) (nat width)
          \<and> s = map (spark_glyph (Min (set data)) (sparkline_range (Min (set data)) (Max (set data))))
                    (drop (length data - nat width) data)))
   \<and> create_sparkline [] width height = Inr (replicate (nat width) SPACE)"
proof (intro conjI impI)
  assume h: "data \<noteq> [] \<and> 1 \<le> width"
  then have "create_sparkline data width height
        = Inr (map (spark_glyph (Min (set data)) (sparkline_range (Min (set data)) (Max (set data))))
                    (drop (length data - nat width) data))"
    by (simp add: create_sparkline_nonempty recent_data_window)
  then show "\<exists>s. create_sparkline data width height = Inr s
          \<and> length s = min (length data) (nat width)
          \<and> s = map (spark_glyph (Min (set data)) (sparkline_range (Min (set data)) (Max (set data))))
                    (drop (length data - nat width) data)"
    by auto
next
  show "create_sparkline [] width height = Inr (replicate (nat width) SPACE)"
    by (simp add: create_sparkline_def py_repeat_single)
qed

theorem sparkline_length_witness:
  "[1, 2, 3, 4, 5 :: real] \<noteq> [] \<and> (1 :: int) \<le> 3
   \<and> create_sparkline [1, 2, 3, 4, 5] 3 8 = Inr [9604, 9606, FULL_BLOCK]
   \<and> length [9604, 9606, FULL_BLOCK] = min (length [1, 2, 3, 4, 5 :: real]) (nat 3)"
  using sparkline_length [of "[1, 2, 3, 4, 5]" 3 8]
  by (simp add: spark_glyph_def sparkline_range_def py_int_def spark_chars_def)

text \<open>
  Claim C3, as the code has it. For a constant series of length at least 1 the range
  is the fallback 1, the loop divides by 1, and every glyph of the output is the blank
  \<^verbatim>\<open>spark_chars[0]\<close> (a space): a sample equal to the minimum is normalized to 0 and
  index 0 of the glyph table is the blank, not the lowest block.
\<close>

theorem sparkline_constant:
  assumes "data \<noteq> []" and "\<forall>v\<in>set data. v = c"
  shows "sparkline_range (Min (set data)) (Max (set data)) = 1
       \<and> create_sparkline data width height
           = sparkline_loop c 1 (recent_data data width) []
       \<and> create_sparkline data width height
           = Inr (replicate (length (recent_data data width)) SPACE)"
proof -
  have s: "set data = {c}" using assms by (cases data) auto
  have mm: "Min (set data) = c" "Max (set data) = c" by (simp_all add: s)
  have r: "sparkline_range c c = 1" by (simp add: sparkline_range_def)
  have sub: "set (recent_data data width) \<subseteq> {c}"
    using s by (auto simp: recent_data_def py_slice_from_def dest: in_set_dropD)
  have "map (spark_glyph c 1) (recent_data data width)
        = replicate (length (recent_data data width)) SPACE"
    using sub by (intro map_const_replicate) (auto simp: spark_glyph_min)
  then show ?thesis
    using assms(1) by (simp add: create_sparkline_nonempty mm r sparkline_loop_map)
qed

theorem sparkline_constant_witness:
  "[5, 5, 5 :: real] \<noteq> [] \<and> set [5, 5, 5 :: real] = {5}
   \<and> create_sparkline [5, 5, 5] 80 8 = Inr [SPACE, SPACE, SPACE]"
proof -
  have h1: "[5, 5, 5 :: real] \<noteq> []" by simp
  have h2: "\<forall>v\<in>set [5, 5, 5 :: real]. v = 5" by simp
  have "create_sparkline [5, 5, 5] 80 8
        = Inr (replicate (length (recent_data [5, 5, 5] 80)) SPACE)"
    using sparkline_constant [OF h1 h2] by (rule conjunct2 [THEN conjunct2])
  then show ?thesis by (simp add: recent_data_def)
qed

text \<open>
  The claim as stated fails on the series 5, 5, 5: the output is three spaces, not
  three copies of the lowest block glyph \<^verbatim>\<open>spark_chars[1]\<close>.
\<close>

theorem sparkline_constant_counterexample:
  "create_sparkline [5, 5, 5] 80 8 = Inr [SPACE, SPACE, SPACE]
   \<and> create_sparkline [5, 5, 5] 80 8 \<noteq> Inr [spark_chars ! 1, spark_chars ! 1, spark_chars ! 1]"
  by (simp add: create_sparkline_def sparkline_range_def recent_data_def py_div_def py_int_def
                py_getitem_def spark_chars_def SPACE_def)

section \<open>CPU cores\<close>

lemma core_data_three:
  "core_data_loop 0 [10, 50, 90] []
   = [(ascii ''C00'', 10), (ascii ''C01'', 50), (ascii ''C02'', 90)]"
  by (simp add: fmt_02d_def str_nat.simps ascii_def numeral_eq_Suc)

lemma vertical_bars_three:
  "create_vertical_bars [(ascii ''C00'', 10), (ascii ''C01'', 50), (ascii ''C02'', 90)] 8 20
   = Inr (Panel (Str (py_join [NEWLINE]
        (replicate 4 [SPACE, SPACE, SPACE, SPACE, SPACE, SPACE, FULL_BLOCK, SPACE, SPACE]
         @ replicate 4 [SPACE, SPACE, SPACE, FULL_BLOCK, SPACE, SPACE, FULL_BLOCK, SPACE, SPACE]
         @ [ascii ''C00       C01       C02       ''])))
      None ''blue'' None)"
  by code_simp

text \<open>
  Claim C5, as the code has it. On the per-core readings 10.0, 50.0, 90.0 and
  console_width = 80, create_cpu_core_visualization builds the items C00, C01, C02 and
  hands them to create_vertical_bars with height 8 and bar width
  max(20, min(40, 80 // 8)) = max(20, 10) = 20; the panel has 8 bar rows and the label
  row C00, C01, C02.
\<close>

theorem cpu_core_three_cores:
  "create_cpu_core_visualization \<lparr>percent = p, percent_per_core = [10, 50, 90]\<rparr> 80
     = create_vertical_bars [(ascii ''C00'', 10), (ascii ''C01'', 50), (ascii ''C02'', 90)] 8 20
   \<and> core_bar_width 80 = 20
   \<and> create_cpu_core_visualization \<lparr>percent = p, percent_per_core = [10, 50, 90]\<rparr> 80
     = Inr (Panel (Str (py_join [NEWLINE]
        (replicate 4 [SPACE, SPACE, SPACE, SPACE, SPACE, SPACE, FULL_BLOCK, SPACE, SPACE]
         @ replicate 4 [SPACE, SPACE, SPACE, FULL_BLOCK, SPACE, SPACE, FULL_BLOCK, SPACE, SPACE]
         @ [ascii ''C00       C01       C02       ''])))
      None ''blue'' None)"
proof -
  have w: "core_bar_width 80 = 20"
    by (simp add: core_bar_width_def)
  have "create_cpu_core_visualization \<lparr>percent = p, percent_per_core = [10, 50, 90]\<rparr> 80
     = create_vertical_bars [(ascii ''C00'', 10), (ascii ''C01'', 50), (ascii ''C02'', 90)] 8 20"
    unfolding create_cpu_core_visualization_def Let_def
    by (simp only: cpu_info.select_convs core_data_three w list.simps if_False)
  then show ?thesis
    using w by (simp only: vertical_bars_three simp_thms)
qed

text \<open>The claim as stated fails: at console_width = 80 the bar width is 20, not 10.\<close>

theorem cpu_core_bar_width_counterexample:
  "core_bar_width 80 = max 20 (min 40 10) \<and> core_bar_width 80 \<noteq> 10"
  by (simp add: core_bar_width_def)

section \<open>Process table\<close>

lemma py_slice_to_take: "0 \<le> i \<Longrightarrow> py_slice_to xs i = take (nat i) xs"
  by (simp add: py_slice_to_def)

lemma py_sorted_reverse_descending:
  "sorted_wrt (\<lambda>p q. k p \<ge> k q) (py_sorted_reverse k xs)"
proof -
  have "sorted (map k (sort_key k (rev xs)))" by (rule sorted_sort_key)
  then have "sorted_wrt (\<lambda>p q. k p \<le> k q) (sort_key k (rev xs))"
    by (simp add: sorted_map)
  then show ?thesis
    by (simp add: py_sorted_reverse_def sorted_wrt_rev)
qed

lemma py_sorted_reverse_stable:
  "filter (\<lambda>p. k p = c) (py_sorted_reverse k xs) = filter (\<lambda>p. k p = c) xs"
  by (simp add: py_sorted_reverse_def rev_filter [symmetric] sort_key_stable)

lemma py_sorted_reverse_mset: "mset (py_sorted_reverse k xs) = mset xs"
  by (simp add: py_sorted_reverse_def)

lemma sorted_wrt_take_any: "sorted_wrt R xs \<Longrightarrow> sorted_wrt R (take n xs)"
  by (induction xs arbitrary: n) (auto simp: take_Cons' dest: in_set_takeD)

text \<open>
  Claim C9. For a non-empty process list and a row limit that is not negative, the
  table's data rows are the first \<open>limit\<close> processes of the list sorted by
  cpu_percent descending: the sorted list is a rearrangement of the input, the rows are
  in descending cpu_percent order, processes with equal cpu_percent appear in their
  input order, and there are min(len, limit) rows, so at most \<open>limit\<close>. On the two
  records with pid 1 (cpu 10) and pid 2 (cpu 90), pid 2's row comes first.
\<close>

theorem mini_process_table_order:
  "(ps \<noteq> [] \<and> 0 \<le> limit \<longrightarrow>
      create_mini_process_table ps limit console_width
        = Panel (Str (py_join [NEWLINE]
                   ([table_header, py_repeat (ascii ''='') (min (console_width - 4) 75)]
                    @ map (process_row (max 5 (min 10 ((console_width - 25) div 4))))
                          (table_processes ps limit))))
                (Some (ascii ''Top Processes'')) ''magenta'' None
      \<and> table_processes ps limit = take (nat limit) (py_sorted_reverse cpu_percent ps)
      \<and> mset (py_sorted_reverse cpu_percent ps) = mset ps
      \<and> sorted_wrt (\<lambda>p q. cpu_percent p \<ge> cpu_percent q) (table_processes ps limit)
      \<and> (\<forall>c. filter (\<lambda>p. cpu_percent p = c) (py_sorted_reverse cpu_percent ps)
               = filter (\<lambda>p. cpu_percent p = c) ps)
      \<and> (\<forall>c. prefix (filter (\<lambda>p. cpu_percent p = c) (table_processes ps limit))
                      (filter (\<lambda>p. cpu_percent p = c) ps))
      \<and> length (table_processes ps limit) = min (length ps) (nat limit))
   \<and> map pid (table_processes
        [\<lparr>pid = 1, name = n1, cpu_percent = 10, memory_percent = m1\<rparr>,
         \<lparr>pid = 2, name = n2, cpu_percent = 90, memory_percent = m2\<rparr>] 12) = [2, 1]"
proof (intro conjI impI allI)
  assume h: "ps \<noteq> [] \<and> 0 \<le> limit"
  then have tp: "table_processes ps limit
                 = take (nat limit) (py_sorted_reverse cpu_percent ps)"
    by (simp add: table_processes_def py_slice_to_take)
  show "table_processes ps limit = take (nat limit) (py_sorted_reverse cpu_percent ps)"
    by (rule tp)
  show "create_mini_process_table ps limit console_width
        = Panel (Str (py_join [NEWLINE]
                   ([table_header, py_repeat (ascii ''='') (min (console_width - 4) 75)]
                    @ map (process_row (max 5 (min 10 ((console_width - 25) div 4))))
                          (table_processes ps limit))))
                (Some (ascii ''Top Processes'')) ''magenta'' None"
    using h by (simp add: create_mini_process_table_def Let_def)
  show "mset (py_sorted_reverse cpu_percent ps) = mset ps"
    by (rule py_sorted_reverse_mset)
  show "sorted_wrt (\<lambda>p q. cpu_percent p \<ge> cpu_percent q) (table_processes ps limit)"
    unfolding tp by (rule sorted_wrt_take_any [OF py_sorted_reverse_descending])
  show "\<And>c. filter (\<lambda>p. cpu_percent p = c) (py_sorted_reverse cpu_percent ps)
               = filter (\<lambda>p. cpu_percent p = c) ps"
    by (rule py_sorted_reverse_stable)
  show "\<And>c. prefix (filter (\<lambda>p. cpu_percent p = c) (table_processes ps limit))
                      (filter (\<lambda>p. cpu_percent p = c) ps)"
  proof -
    fix c
    have "prefix (filter (\<lambda>p. cpu_percent p = c) (table_processes ps limit))
                 (filter (\<lambda>p. cpu_percent p = c) (py_sorted_reverse cpu_percent ps))"
      unfolding tp by (rule filter_mono_prefix [OF take_is_prefix])
    then show "prefix (filter (\<lambda>p. cpu_percent p = c) (table_processes ps limit))
                      (filter (\<lambda>p. cpu_percent p = c) ps)"
      by (simp only: py_sorted_reverse_stable)
  qed
  show "length (table_processes ps limit) = min (length ps) (nat limit)"
    unfolding tp by (simp add: py_sorted_reverse_def)
next
  show "map pid (table_processes
        [\<lparr>pid = 1, name = n1, cpu_percent = 10, memory_percent = m1\<rparr>,
         \<lparr>pid = 2, name = n2, cpu_percent = 90, memory_percent = m2\<rparr>] 12) = [2, 1]"
    by (simp add: table_processes_def py_slice_to_def py_sorted_reverse_def)
qed

theorem mini_process_table_order_witness:
  "length (table_processes
     [\<lparr>pid = 1, name = ascii ''a'', cpu_percent = 10, memory_percent = 1\<rparr>,
      \<lparr>pid = 2, name = ascii ''b'', cpu_percent = 90, memory_percent = 2\<rparr>,
      \<lparr>pid = 3, name = ascii ''c'', cpu_percent = 10, memory_percent = 3\<rparr>] 2) = 2"
proof -
  let ?ps = "[\<lparr>pid = 1, name = ascii ''a'', cpu_percent = 10, memory_percent = 1\<rparr>,
      \<lparr>pid = 2, name = ascii ''b'', cpu_percent = 90, memory_percent = 2\<rparr>,
      \<lparr>pid = 3, name = ascii ''c'', cpu_percent = 10, memory_percent = 3\<rparr>]"
  have h: "?ps \<noteq> [] \<and> (0 :: int) \<le> 2" by simp
  from mini_process_table_order [of ?ps 2 80] h
  have "length (table_processes ?ps 2) = min (length ?ps) (nat 2)" by blast
  then show ?thesis by simp
qed

section \<open>Which calls can raise\<close>

text \<open>
  Every division of the sparkline and of the two bar charts has a denominator that is
  not zero where it is evaluated, so these functions return on every input; the memory
  breakdown returns exactly when the snapshot's total is not zero.
\<close>

lemma map_err_total:
  "(\<And>x. x \<in> set xs \<Longrightarrow> \<exists>y. f x = Inr y) \<Longrightarrow> \<exists>ys. map_err f xs = Inr ys \<and> length ys = length xs"
proof (induction xs)
  case Nil
  show ?case by simp
next
  case (Cons x xs)
  obtain y where y: "f x = Inr y" using Cons.prems by auto
  obtain ys where ys: "map_err f xs = Inr ys" "length ys = length xs" using Cons by auto
  show ?case by (simp add: y ys)
qed

lemma bar_width_of_total: "\<exists>w. bar_width_of max_val width v = Inr w"
  by (simp add: bar_width_of_def float_div_def)

lemma vbar_line_loop_total:
  "height \<noteq> 0 \<Longrightarrow> \<exists>l. vbar_line_loop level height width bws line = Inr l"
  by (induction bws arbitrary: line) (simp_all add: py_div_def Let_def)

lemma vbar_lines_loop_total:
  "height \<noteq> 0 \<Longrightarrow> \<exists>ls. vbar_lines_loop levels height width bws lines = Inr ls"
proof (induction levels arbitrary: lines)
  case Nil
  show ?case by simp
next
  case (Cons level levels)
  obtain l where l: "vbar_line_loop level height width bws [] = Inr l"
    using vbar_line_loop_total [OF Cons.prems] by blast
  show ?case using Cons by (simp add: l)
qed

lemma create_vertical_bars_nonzero_height:
  "height \<noteq> 0 \<Longrightarrow> \<exists>p. create_vertical_bars data height width = Inr p"
proof -
  assume h: "height \<noteq> 0"
  obtain bws where bws: "map_err (bar_width_of (max_values (map snd data)) width) (map snd data) = Inr bws"
    using map_err_total [of "map snd data" "bar_width_of (max_values (map snd data)) width"]
          bar_width_of_total by blast
  obtain ls where ls: "vbar_lines_loop (rev [1..height]) height width bws [] = Inr ls"
    using vbar_lines_loop_total [OF h] by blast
  show ?thesis
    by (simp add: create_vertical_bars_def Let_def bws ls)
qed

lemma create_vertical_bars_total: "\<exists>p. create_vertical_bars data height width = Inr p"
proof (cases "height = 0")
  case True
  obtain bws where bws: "map_err (bar_width_of (max_values (map snd data)) width) (map snd data) = Inr bws"
    using map_err_total [of "map snd data" "bar_width_of (max_values (map snd data)) width"]
          bar_width_of_total by blast
  show ?thesis
    by (simp add: create_vertical_bars_def Let_def bws True)
next
  case False
  then show ?thesis by (rule create_vertical_bars_nonzero_height)
qed

lemma hbar_row_total: "\<exists>r. hbar_row max_val max_width item = Inr r"
proof -
  obtain label v where item: "item = (label, v)" by (cases item)
  obtain w where w: "bar_width_of max_val max_width v = Inr w"
    using bar_width_of_total by blast
  show ?thesis by (simp add: hbar_row_def item w)
qed

lemma create_horizontal_bars_total: "\<exists>p. create_horizontal_bars data max_width = Inr p"
proof -
  obtain ls where ls: "map_err (hbar_row (max_values (map snd data)) max_width) data = Inr ls"
    using map_err_total [of data "hbar_row (max_values (map snd data)) max_width"]
          hbar_row_total by blast
  show ?thesis
    by (simp add: create_horizontal_bars_def Let_def ls)
qed

lemma create_sparkline_total: "\<exists>s. create_sparkline data width height = Inr s"
proof (cases "data = []")
  case True
  then show ?thesis by (simp add: create_sparkline_def)
next
  case False
  then show ?thesis using create_sparkline_nonempty [of data width height] by blast
qed

lemma create_cpu_core_visualization_total: "\<exists>p. create_cpu_core_visualization c w = Inr p"
  using create_vertical_bars_total
  by (simp add: create_cpu_core_visualization_def Let_def)

lemma create_network_visualization_total: "\<exists>p. create_network_visualization n w = Inr p"
  using create_horizontal_bars_total
  by (simp add: create_network_visualization_def Let_def)

lemma create_memory_breakdown_total:
  "total mi \<noteq> 0 \<Longrightarrow> \<exists>p. create_memory_breakdown mi w = Inr p"
  using create_horizontal_bars_total
  by (simp add: create_memory_breakdown_def Let_def py_div_def)

lemma create_memory_breakdown_raises:
  "total mi = 0 \<Longrightarrow> create_memory_breakdown mi w = Inl ZeroDivisionError"
  by (simp add: create_memory_breakdown_def Let_def py_div_def)

lemma render_total:
  assumes "total (get_memory_info P (update_history P (monitor d))) \<noteq> 0"
  shows "\<exists>l. snd (render P d) = Inr l"
proof -
  let ?m = "update_history P (monitor d)"
  obtain s1 where s1: "create_sparkline (get_cpu_history P ?m) 80 6 = Inr s1"
    using create_sparkline_total by blast
  obtain c1 where c1: "create_cpu_core_visualization (get_cpu_info P ?m) 80 = Inr c1"
    using create_cpu_core_visualization_total by blast
  obtain s2 where s2: "create_sparkline (get_memory_history P ?m) 80 5 = Inr s2"
    using create_sparkline_total by blast
  obtain b where b: "create_memory_breakdown (get_memory_info P ?m) 80 = Inr b"
    using create_memory_breakdown_total [OF assms] by blast
  obtain n where n: "create_network_visualization (get_network_info P ?m) 80 = Inr n"
    using create_network_visualization_total by blast
  show ?thesis
    by (simp add: render_def Let_def dash_cpu_cores_def dash_memory_visual_def
                  dash_network_visual_def s1 c1 s2 b n)
qed

lemma visual_processes_reads:
  "console_height d' = console_height d \<Longrightarrow> monitor d' = monitor d
   \<Longrightarrow> sort_processes_by d' = sort_processes_by d
   \<Longrightarrow> visual_processes P d' = visual_processes P d"
  by (simp add: visual_processes_def)

lemma render_monitor: "monitor (fst (render P d)) = update_history P (monitor d)"
  by (simp add: render_def Let_def split: sum.splits)

lemma render_console_height: "console_height (fst (render P d)) = console_height d"
  by (simp add: render_def Let_def split: sum.splits)

lemma render_sort_key: "sort_processes_by (fst (render P d)) = sort_processes_by d"
  by (simp add: render_def Let_def split: sum.splits)

lemma render_visual_processes:
  "visual_processes P (fst (render P d))
   = visual_processes P (d\<lparr>monitor := update_history P (monitor d)\<rparr>)"
  by (rule visual_processes_reads) (simp_all add: render_monitor render_console_height render_sort_key)

lemma render_processes:
  assumes "snd (render P d) = Inr l"
  shows "processes l = create_processes_visual P (fst (render P d))"
proof -
  have "processes l
        = create_processes_visual P (d\<lparr>layout := make_layout,
                                          monitor := update_history P (monitor d)\<rparr>)"
    using assms by (auto simp: render_def Let_def split: sum.splits)
  also have "\<dots> = create_processes_visual P (fst (render P d))"
    unfolding create_processes_visual_def
    by (simp add: visual_processes_reads [of "fst (render P d)"
                    "d\<lparr>layout := make_layout, monitor := update_history P (monitor d)\<rparr>"]
                  render_monitor render_console_height render_sort_key)
  finally show ?thesis .
qed

section \<open>Process region of the dashboard\<close>

lemma process_limit_ge_20: "20 \<le> process_limit h"
  by (simp add: process_limit_def)

lemma length_py_slice_to: "0 \<le> i \<Longrightarrow> length (py_slice_to xs i) \<le> nat i"
  by (simp add: py_slice_to_def)

text \<open>
  Claim C10. For every terminal height the process region of the dashboard holds at
  most 12 process rows: the limit max(8, height // 3, 20) is at least 20,
  \<^verbatim>\<open>_create_processes_visual\<close> asks the provider for limit + 5 records and keeps the first
  \<open>limit\<close> of them, and the table, called with its default limit 12 and width 80,
  emits at most 12 rows. The panel is the placeholder or the header, a rule of 75
  characters and these rows, and it is the panel \<^verbatim>\<open>render\<close> puts into the processes
  region; \<^verbatim>\<open>render\<close> returns whenever the memory snapshot's total is not zero.
\<close>

theorem process_panel_at_most_12_rows:
  "20 \<le> process_limit (console_height d)
   \<and> visual_processes P d
       = take (nat (process_limit (console_height d)))
           (if sort_processes_by d = ascii ''memory''
            then py_sorted_reverse memory_percent
                   (get_process_info P (monitor d) (process_limit (console_height d) + 5))
            else get_process_info P (monitor d) (process_limit (console_height d) + 5))
   \<and> create_processes_visual P d = create_mini_process_table (visual_processes P d) 12 80
   \<and> length (table_processes (visual_processes P d) 12) \<le> 12
   \<and> create_processes_visual P d
       = (if visual_processes P d = [] then Panel (Str (ascii ''No processes'')) None ''red'' None
          else Panel (Str (py_join [NEWLINE]
                       ([table_header, py_repeat (ascii ''='') 75]
                        @ map (process_row 10) (table_processes (visual_processes P d) 12))))
                 (Some (ascii ''Top Processes'')) ''magenta'' None)
   \<and> (\<forall>l. snd (render P d) = Inr l
          \<longrightarrow> processes l = create_processes_visual P (fst (render P d)))
   \<and> (total (get_memory_info P (update_history P (monitor d))) \<noteq> 0
          \<longrightarrow> (\<exists>l. snd (render P d) = Inr l))"
proof (intro conjI allI impI)
  show "20 \<le> process_limit (console_height d)"
    by (rule process_limit_ge_20)
  have pos: "0 \<le> process_limit (console_height d)"
    using process_limit_ge_20 [of "console_height d"] by simp
  show "visual_processes P d
       = take (nat (process_limit (console_height d)))
           (if sort_processes_by d = ascii ''memory''
            then py_sorted_reverse memory_percent
                   (get_process_info P (monitor d) (process_limit (console_height d) + 5))
            else get_process_info P (monitor d) (process_limit (console_height d) + 5))"
    using pos by (simp add: visual_processes_def Let_def py_slice_to_take)
  show "create_processes_visual P d = create_mini_process_table (visual_processes P d) 12 80"
    by (simp add: create_processes_visual_def)
  show "length (table_processes (visual_processes P d) 12) \<le> 12"
    using length_py_slice_to [of 12] by (simp add: table_processes_def)
  show "create_processes_visual P d
       = (if visual_processes P d = [] then Panel (Str (ascii ''No processes'')) None ''red'' None
          else Panel (Str (py_join [NEWLINE]
                       ([table_header, py_repeat (ascii ''='') 75]
                        @ map (process_row 10) (table_processes (visual_processes P d) 12))))
                 (Some (ascii ''Top Processes'')) ''magenta'' None)"
    by (simp add: create_processes_visual_def create_mini_process_table_def Let_def)
next
  fix l
  assume "snd (render P d) = Inr l"
  then show "processes l = create_processes_visual P (fst (render P d))"
    by (rule render_processes)
next
  assume "total (get_memory_info P (update_history P (monitor d))) \<noteq> 0"
  then show "\<exists>l. snd (render P d) = Inr l"
    by (rule render_total)
qed

lemma sample_total:
  "total (get_memory_info system_monitor_provider
           (update_history system_monitor_provider (monitor (init_dashboard 24 sample_monitor)))) = 4096"
  by (simp add: system_monitor_provider_def monitor_update_history_def init_dashboard_def
                sample_monitor_def)

theorem process_panel_at_most_12_rows_witness:
  "\<exists>l. snd (render system_monitor_provider (init_dashboard 24 sample_monitor)) = Inr l
       \<and> processes l = create_processes_visual system_monitor_provider
                         (fst (render system_monitor_provider (init_dashboard 24 sample_monitor)))"
proof -
  have "total (get_memory_info system_monitor_provider
           (update_history system_monitor_provider (monitor (init_dashboard 24 sample_monitor)))) \<noteq> 0"
    by (simp add: sample_total)
  with process_panel_at_most_12_rows [of "init_dashboard 24 sample_monitor" system_monitor_provider]
  show ?thesis by blast
qed

section \<open>Process sort key\<close>

text \<open>
  \<^verbatim>\<open>set_process_sort\<close> ignores a key other than "cpu" and "memory" and stores these two.
  The rows of the process region are in descending cpu_percent order whatever the
  stored key is, since the table sorts the list it is given by cpu_percent.
\<close>

lemma set_process_sort_unknown_key:
  "sort_by \<noteq> ascii ''cpu'' \<Longrightarrow> sort_by \<noteq> ascii ''memory'' \<Longrightarrow> set_process_sort d sort_by = d"
  by (simp add: set_process_sort_def)

lemma set_process_sort_known_key:
  "sort_by = ascii ''cpu'' \<or> sort_by = ascii ''memory''
   \<Longrightarrow> sort_processes_by (set_process_sort d sort_by) = sort_by"
  by (auto simp: set_process_sort_def)

lemma rows_always_by_cpu:
  "sorted_wrt (\<lambda>p q. cpu_percent p \<ge> cpu_percent q) (table_processes (visual_processes P d) 12)"
  by (simp add: table_processes_def py_slice_to_take sorted_wrt_take_any py_sorted_reverse_descending)

text \<open>
  Claim C7. The claim is that after set_process_sort("memory") the next render orders
  the process rows by memory_percent descending. On a snapshot with pid 1
  (cpu 10, memory 90) and pid 2 (cpu 90, memory 10) the key is stored, the list is
  sorted by memory, and the table then sorts it by cpu again: the rows are pid 2
  (memory 10) and then pid 1 (memory 90).
\<close>

theorem memory_sort_rows_by_cpu:
  "sort_processes_by (set_process_sort (init_dashboard 24 sample_monitor) (ascii ''memory''))
     = ascii ''memory''
   \<and> map (\<lambda>p. (pid p, cpu_percent p, memory_percent p))
        (table_processes
           (visual_processes system_monitor_provider
              (fst (render system_monitor_provider
                      (set_process_sort (init_dashboard 24 sample_monitor) (ascii ''memory'')))))
           12)
     = [(2, 90, 10), (1, 10, 90)]"
  unfolding render_visual_processes
  by (simp add: set_process_sort_def init_dashboard_def visual_processes_def
                process_limit_def system_monitor_provider_def monitor_update_history_def
                sample_monitor_def table_processes_def py_slice_to_def py_sorted_reverse_def
                ascii_def)

section \<open>Render and the history\<close>

text \<open>
  Claim C4, as the code has it. The dashboard's state has no pause flag: its attributes
  are the console, the monitor, the layout and the sort key. Every call of \<^verbatim>\<open>render\<close>
  asks the provider to update its history, unconditionally: the monitor after the call
  is the updated one, on every dashboard object, also on one that carries further
  attributes such as a pause flag.
\<close>

theorem render_always_updates_history:
  "monitor (fst (render P d)) = update_history P (monitor d)"
  by (rule render_monitor)

text \<open>
  The claim as stated fails: on a dashboard object that carries a pause flag set to
  True, \<^verbatim>\<open>render\<close> still has the history extended, here from no sample to the current
  CPU reading 50.
\<close>

theorem render_paused_counterexample:
  "paused \<lparr>console_height = 24, monitor = sample_monitor, layout = make_layout,
            sort_processes_by = ascii ''cpu'', paused = True\<rparr>
   \<and> cpu_history (monitor \<lparr>console_height = 24, monitor = sample_monitor,
                             layout = make_layout, sort_processes_by = ascii ''cpu'',
                             paused = True\<rparr>) = []
   \<and> cpu_history (monitor (fst (render system_monitor_provider
        \<lparr>console_height = 24, monitor = sample_monitor, layout = make_layout,
         sort_processes_by = ascii ''cpu'', paused = True\<rparr>))) = [50]"
  by (simp add: render_monitor system_monitor_provider_def monitor_update_history_def
                sample_monitor_def push_sample_def)

section \<open>Rounding to double precision\<close>

text \<open>
  Rounding does not cross an integer below \<open>2 ^ 53\<close>: such an integer is a double,
  so a value that is at most the integer is rounded to at most the integer, and a
  value that is not negative is rounded to one that is not negative.
\<close>

lemma round_half_even_of_int: "round_half_even (of_int k) = k"
  by (simp add: round_half_even_def)

lemma round_half_even_le: "y \<le> of_int k \<Longrightarrow> round_half_even y \<le> k"
proof -
  assume h: "y \<le> of_int k"
  have f: "\<lfloor>y\<rfloor> \<le> k" using h by (simp add: floor_le_iff) 
  show ?thesis
  proof (cases "y - of_int \<lfloor>y\<rfloor> < 1 / 2")
    case True
    then show ?thesis using f by (simp add: round_half_even_def Let_def)
  next
    case False
    then have "of_int \<lfloor>y\<rfloor> < y" by simp
    then have "of_int \<lfloor>y\<rfloor> < (of_int k :: real)" using h by simp
    then have "\<lfloor>y\<rfloor> < k" by simp
    then show ?thesis by (simp add: round_half_even_def Let_def)
  qed
qed

lemma round_half_even_nonneg: "0 \<le> y \<Longrightarrow> 0 \<le> round_half_even y"
  by (simp add: round_half_even_def Let_def)

lemma ulp_pos: "0 < ulp e"
  by (simp add: ulp_def)

lemma float_exponent_le_52:
  assumes "0 \<le> x" and "x < 2 ^ 53"
  shows "float_exponent x \<le> 52"
proof (cases "1 \<le> x")
  case True
  have "\<lfloor>x\<rfloor> < 2 ^ 53" using assms(2) by (simp add: floor_less_iff)
  then have "bitlen \<lfloor>x\<rfloor> \<le> 53" by (simp add: bitlen_le_iff_power)
  then show ?thesis using True assms(1) by (simp add: float_exponent_def)
next
  case False
  have "0 \<le> bitlen (\<lceil>1 / x\<rceil> - 1)" by (rule bitlen_nonneg)
  then show ?thesis using False assms(1) by (simp add: float_exponent_def)
qed

lemma int_over_ulp: "e \<le> 52 \<Longrightarrow> real_of_int r / ulp e = of_int (r * 2 ^ nat (52 - e))"
  by (cases "e = 52") (simp_all add: ulp_def)

lemma round_double_nonneg: "0 \<le> x \<Longrightarrow> 0 \<le> round_double x"
  using ulp_pos [of "float_exponent x"]
  by (simp add: round_double_def round_half_even_nonneg)

lemma round_double_le_int:
  assumes "0 \<le> x" and "x \<le> of_int r" and "r < 2 ^ 53"
  shows "round_double x \<le> of_int r"
proof -
  let ?e = "float_exponent x"
  have "x < 2 ^ 53"
  proof -
    have "real_of_int r < 2 ^ 53" using assms(3) by (metis of_int_less_numeral_power_cancel_iff)
    then show ?thesis using assms(2) by simp
  qed
  then have e: "?e \<le> 52" using assms(1) by (rule float_exponent_le_52 [rotated])
  have "x / ulp ?e \<le> real_of_int r / ulp ?e"
    using assms(2) ulp_pos [of ?e] by (simp add: divide_right_mono)
  then have "x / ulp ?e \<le> of_int (r * 2 ^ nat (52 - ?e))"
    by (simp only: int_over_ulp [OF e])
  then have "round_half_even (x / ulp ?e) \<le> r * 2 ^ nat (52 - ?e)"
    by (rule round_half_even_le)
  then have "real_of_int (round_half_even (x / ulp ?e)) \<le> real_of_int (r * 2 ^ nat (52 - ?e))"
    by (simp only: of_int_le_iff)
  then have "real_of_int (round_half_even (x / ulp ?e)) \<le> real_of_int r / ulp ?e"
    by (simp only: int_over_ulp [OF e])
  then have "real_of_int (round_half_even (x / ulp ?e)) * ulp ?e \<le> real_of_int r"
    using ulp_pos [of ?e] by (simp add: pos_le_divide_eq)
  then show ?thesis by (simp add: round_double_def)
qed

lemma round_double_of_int:
  assumes "0 \<le> r" and "r < 2 ^ 53"
  shows "round_double (real_of_int r) = real_of_int r"
proof -
  let ?e = "float_exponent (real_of_int r)"
  have "real_of_int r < 2 ^ 53" using assms(2) by (metis of_int_less_numeral_power_cancel_iff)
  then have e: "?e \<le> 52" using assms(1) by (intro float_exponent_le_52) simp_all
  have "round_double (real_of_int r)
        = real_of_int (round_half_even (of_int (r * 2 ^ nat (52 - ?e)))) * ulp ?e"
    by (simp only: round_double_def int_over_ulp [OF e])
  also have "\<dots> = real_of_int (r * 2 ^ nat (52 - ?e)) * ulp ?e"
    by (simp only: round_half_even_of_int)
  also have "\<dots> = real_of_int r / ulp ?e * ulp ?e"
    by (simp only: int_over_ulp [OF e])
  also have "\<dots> = real_of_int r" using ulp_pos [of ?e] by simp
  finally show ?thesis .
qed

text \<open>
  The quotient 47.0 / 70.0 and its product with 70, as the interpreter computes them:
  \<^verbatim>\<open>0x1.57c57c57c57c5p-1\<close> and \<^verbatim>\<open>0x1.77fffffffffffp+5\<close>, which is below 47.
\<close>

lemma round_double_examples:
  "round_double (47 / 70) = 6047690928183237 / 2 ^ 53
   \<and> round_double (6047690928183237 / 2 ^ 53 * 70) = 6614661952700415 / 2 ^ 47
   \<and> round_double (1 / 3) = 6004799503160661 / 2 ^ 54"
  by code_simp

section \<open>Horizontal bars\<close>

lemma max_values_Max: "vals \<noteq> [] \<Longrightarrow> max_values vals = Max (set vals)"
proof (cases vals)
  case Nil
  assume "vals \<noteq> []"
  with Nil show ?thesis by simp
next
  case (Cons v vs)
  show ?thesis unfolding Cons max_values_def list.case by (simp only: Max.set_eq_fold)
qed

lemma bar_width_of_float_filled:
  assumes "0 \<le> v" and "0 \<le> max_width"
  shows "bar_width_of max_val max_width v = Inr (float_filled_width max_val max_width v)"
proof (cases "max_val > 0")
  case True
  have q: "0 \<le> round_double (v / max_val)"
    using True assms(1) by (intro round_double_nonneg) simp
  have w: "0 \<le> round_double (real_of_int max_width)"
    using assms(2) by (intro round_double_nonneg) simp
  have "0 \<le> round_double (round_double (v / max_val) * round_double (real_of_int max_width))"
    using q w by (intro round_double_nonneg) simp
  then show ?thesis using True
    by (simp add: bar_width_of_def float_filled_width_def float_div_def float_mul_def
                  float_of_int_def py_int_def)
next
  case False
  then show ?thesis by (simp add: bar_width_of_def float_filled_width_def)
qed

lemma float_filled_width_bounds:
  assumes "0 \<le> v" and "v \<le> max_val" and "0 \<le> max_width" and "max_width < 2 ^ 53"
  shows "0 \<le> float_filled_width max_val max_width v
       \<and> float_filled_width max_val max_width v \<le> max_width"
proof (cases "max_val > 0")
  case True
  let ?q = "round_double (v / max_val)"
  have q0: "0 \<le> ?q" using True assms(1) by (intro round_double_nonneg) simp
  have "v / max_val \<le> real_of_int 1" using True assms(2) by simp
  then have q1: "?q \<le> 1"
    using True assms(1) round_double_le_int [of "v / max_val" 1] by simp
  have w: "round_double (real_of_int max_width) = real_of_int max_width"
    using assms(3,4) by (rule round_double_of_int)
  have p0: "0 \<le> ?q * real_of_int max_width" using q0 assms(3) by simp
  have "?q * real_of_int max_width \<le> 1 * real_of_int max_width"
    using q1 assms(3) by (intro mult_right_mono) simp_all
  then have p1: "?q * real_of_int max_width \<le> real_of_int max_width" by simp
  have r1: "round_double (?q * real_of_int max_width) \<le> real_of_int max_width"
    using p0 p1 assms(4) by (rule round_double_le_int)
  have r0: "0 \<le> round_double (?q * real_of_int max_width)"
    using p0 by (rule round_double_nonneg)
  have "\<lfloor>round_double (?q * real_of_int max_width)\<rfloor> \<le> max_width"
    using r1 by (simp add: floor_le_iff)
  moreover have "0 \<le> \<lfloor>round_double (?q * real_of_int max_width)\<rfloor>" using r0 by simp
  ultimately show ?thesis using True by (simp add: float_filled_width_def w)
next
  case False
  then show ?thesis using assms by (simp add: float_filled_width_def)
qed

lemma map_err_map:
  "(\<And>x. x \<in> set xs \<Longrightarrow> f x = Inr (g x)) \<Longrightarrow> map_err f xs = Inr (map g xs)"
  by (induction xs) simp_all

lemma hbar_replicate:
  "hbar bar_width max_width
   = replicate (nat bar_width) FULL_BLOCK @ replicate (nat (max_width - bar_width)) LIGHT_SHADE"
  by (simp add: hbar_def py_repeat_single)

text \<open>
  Claim C8, as the code has it. For a non-empty mapping with non-negative values and a
  width from 0 to below \<open>2 ^ 53\<close>, every row of create_horizontal_bars is the label in
  a 6-character field, a space, then \<open>filled\<close> solid blocks followed by
  maxWidth - \<open>filled\<close> light-shade blocks, a space, and the value with one decimal,
  right-aligned in 5 columns, with a trailing percent sign; the rows are joined by
  newlines in the mapping's order. Here \<open>filled\<close> is the double
  \<^verbatim>\<open>(value / maxVal) * maxWidth\<close> rounded down, the quotient and the product each
  rounded to double precision. The filled length lies between 0 and maxWidth, and it is
  0 in every row when all values are 0.
\<close>

theorem horizontal_bars_rows:
  assumes "data \<noteq> []" and "\<forall>item\<in>set data. 0 \<le> snd item"
      and "0 \<le> max_width" and "max_width < 2 ^ 53"
  shows "create_horizontal_bars data max_width
         = Inr (Panel (Str (py_join [NEWLINE]
             (map (\<lambda>(label, v).
                     ljust label 6 @ [SPACE]
                     @ replicate (nat (float_filled_width (Max (snd ` set data)) max_width v))
                         FULL_BLOCK
                     @ replicate
                         (nat (max_width - float_filled_width (Max (snd ` set data)) max_width v))
                         LIGHT_SHADE
                     @ [SPACE] @ rjust (fmt_1f v) 5 @ ascii ''%'')
                  data)))
             None ''green'' None)
       \<and> (\<forall>item\<in>set data.
             0 \<le> float_filled_width (Max (snd ` set data)) max_width (snd item)
           \<and> float_filled_width (Max (snd ` set data)) max_width (snd item) \<le> max_width)
       \<and> ((\<forall>item\<in>set data. snd item = 0)
           \<longrightarrow> (\<forall>item\<in>set data.
                 float_filled_width (Max (snd ` set data)) max_width (snd item) = 0))"
proof (intro conjI ballI impI)
  let ?M = "Max (snd ` set data)"
  have mv: "max_values (map snd data) = ?M"
    using assms(1) by (simp add: max_values_Max)
  have row: "hbar_row ?M max_width item
             = Inr ((\<lambda>(label, v).
                     ljust label 6 @ [SPACE]
                     @ replicate (nat (float_filled_width ?M max_width v)) FULL_BLOCK
                     @ replicate (nat (max_width - float_filled_width ?M max_width v)) LIGHT_SHADE
                     @ [SPACE] @ rjust (fmt_1f v) 5 @ ascii ''%'') item)"
    if "item \<in> set data" for item
  proof -
    obtain label v where item: "item = (label, v)" by (cases item)
    have "0 \<le> v" using that assms(2) item by auto
    then show ?thesis
      by (simp add: hbar_row_def item bar_width_of_float_filled assms(3) hbar_replicate
                    fmt_5_1f_def)
  qed
  show "create_horizontal_bars data max_width
         = Inr (Panel (Str (py_join [NEWLINE]
             (map (\<lambda>(label, v).
                     ljust label 6 @ [SPACE]
                     @ replicate (nat (float_filled_width ?M max_width v)) FULL_BLOCK
                     @ replicate (nat (max_width - float_filled_width ?M max_width v)) LIGHT_SHADE
                     @ [SPACE] @ rjust (fmt_1f v) 5 @ ascii ''%'')
                  data)))
             None ''green'' None)"
    using assms(1) by (simp add: create_horizontal_bars_def Let_def mv map_err_map [OF row])
next
  fix item
  assume i: "item \<in> set data"
  have "snd item \<le> Max (snd ` set data)" using i by simp
  moreover have "0 \<le> snd item" using i assms(2) by auto
  ultimately have b: "0 \<le> float_filled_width (Max (snd ` set data)) max_width (snd item)
           \<and> float_filled_width (Max (snd ` set data)) max_width (snd item) \<le> max_width"
    using assms(3,4) by (intro float_filled_width_bounds)
  show "0 \<le> float_filled_width (Max (snd ` set data)) max_width (snd item)" using b by simp
  show "float_filled_width (Max (snd ` set data)) max_width (snd item) \<le> max_width"
    using b by simp
next
  fix item
  assume z: "\<forall>item\<in>set data. snd item = 0" and i: "item \<in> set data"
  have "snd ` set data = {0}" using z assms(1) by (cases data) auto
  then have "Max (snd ` set data) = 0" by simp
  then show "float_filled_width (Max (snd ` set data)) max_width (snd item) = 0"
    by (simp add: float_filled_width_def)
qed

lemma replicate_numeral: "replicate (numeral k) x = x # replicate (pred_numeral k) x"
  by (simp add: numeral_eq_Suc)

lemma float_filled_examples:
  "float_filled_width 75 4 25 = 1 \<and> float_filled_width 75 4 75 = 4
   \<and> float_filled_width 70 70 47 = 46 \<and> float_filled_width 70 70 70 = 70"
  by code_simp

lemma filled_width_example: "filled_width 70 70 47 = 47"
  by (simp add: filled_width_def)

theorem horizontal_bars_rows_witness:
  "create_horizontal_bars [(ascii ''USED'', 25), (ascii ''FREE'', 75)] 4
   = Inr (Panel (Str (ascii ''USED   '' @ [FULL_BLOCK, LIGHT_SHADE, LIGHT_SHADE, LIGHT_SHADE]
                      @ ascii ''  25.0%'' @ [NEWLINE]
                      @ ascii ''FREE   '' @ [FULL_BLOCK, FULL_BLOCK, FULL_BLOCK, FULL_BLOCK]
                      @ ascii ''  75.0%''))
            None ''green'' None)"
proof -
  let ?data = "[(ascii ''USED'', 25), (ascii ''FREE'', 75 :: real)]"
  have h1: "?data \<noteq> []" by simp
  have h2: "\<forall>item\<in>set ?data. 0 \<le> snd item" by simp
  have h3: "(0 :: int) \<le> 4" by simp
  have h4: "(4 :: int) < 2 ^ 53" by simp
  have m: "Max (snd ` set ?data) = 75" by simp
  have "create_horizontal_bars ?data 4
         = Inr (Panel (Str (py_join [NEWLINE]
             (map (\<lambda>(label, v).
                     ljust label 6 @ [SPACE]
                     @ replicate (nat (float_filled_width (Max (snd ` set ?data)) 4 v)) FULL_BLOCK
                     @ replicate (nat (4 - float_filled_width (Max (snd ` set ?data)) 4 v))
                         LIGHT_SHADE
                     @ [SPACE] @ rjust (fmt_1f v) 5 @ ascii ''%'')
                  ?data)))
             None ''green'' None)"
    using horizontal_bars_rows [OF h1 h2 h3 h4] by (rule conjunct1)
  then show ?thesis
    unfolding m
    by (simp add: float_filled_examples ljust_def rjust_def fmt_1f_def round_half_even_def
                  str_nat.simps ascii_def SPACE_def replicate_numeral)
qed

lemma horizontal_bars_47_70:
  "create_horizontal_bars [(ascii ''A'', 47), (ascii ''B'', 70)] 70
   = Inr (Panel (Str (ascii ''A      '' @ replicate 46 FULL_BLOCK @ replicate 24 LIGHT_SHADE
                      @ ascii ''  47.0%'' @ [NEWLINE]
                      @ ascii ''B      '' @ replicate 70 FULL_BLOCK @ ascii ''  70.0%''))
            None ''green'' None)"
  by (simp add: create_horizontal_bars_def max_values_def hbar_row_def bar_width_of_float_filled
                float_filled_examples hbar_replicate fmt_5_1f_def fmt_1f_def round_half_even_def
                str_nat.simps ljust_def rjust_def ascii_def SPACE_def replicate_numeral)

text \<open>
  The claim as stated fails on the mapping A = 47, B = 70 with width 70. The row of A
  begins with the label field, not with the bar; and its bar has 46 solid blocks, while
  \<open>round_down(47 / 70 * 70)\<close> in exact arithmetic is 47.
\<close>

theorem horizontal_bars_row_counterexample:
  "create_horizontal_bars [(ascii ''A'', 47), (ascii ''B'', 70)] 70
   = Inr (Panel (Str (ascii ''A      '' @ replicate 46 FULL_BLOCK @ replicate 24 LIGHT_SHADE
                      @ ascii ''  47.0%'' @ [NEWLINE]
                      @ ascii ''B      '' @ replicate 70 FULL_BLOCK @ ascii ''  70.0%''))
            None ''green'' None)
   \<and> filled_width 70 70 47 = 47
   \<and> bar_width_of 70 70 47 = Inr 46"
  using bar_width_of_float_filled [of 47 70 70]
  by (simp add: horizontal_bars_47_70 filled_width_example float_filled_examples)

end
